theory Spec2Isabelle
  imports Main "HOL-Library.Word" "HOL-Library.AList"
begin

unbundle bit_operations_syntax

section \<open>Configuration values\<close>

text \<open>
  The cluster configuration is a Python dictionary loaded from YAML. Dictionaries are
  association lists in insertion order; \<open>AList.update\<close> replaces the value of a key
  that is present in place and appends a new key, as Python's item assignment does.
  Strings are byte strings: a path is carried as its UTF-8 encoding. Floating point
  scalars are not modelled.
\<close>

datatype val =
    VStr string
  | VInt int
  | VBool bool
  | VNone
  | VList "val list"
  | VDict "(string \<times> val) list"

type_synonym dict = "(string \<times> val) list"

datatype error =
    VersionIncompatible string string
  | NoCompositionsDetected string
  | KeyError string
  | TypeError
  | CollaboratorFailure string

text \<open>Python's \<open>needle in s\<close> on two strings: \<open>needle\<close> occurs in \<open>s\<close>.\<close>

fun is_substring :: "string \<Rightarrow> string \<Rightarrow> bool" where
  "is_substring needle [] = (needle = [])"
| "is_substring needle (c # cs) =
     (take (length needle) (c # cs) = needle \<or> is_substring needle cs)"

text \<open>
  \<open>key in x\<close> for a string key: key membership on a dictionary, element membership on
  a list, substring test on a string, and a TypeError on a value that is not iterable.
\<close>

fun contains :: "val \<Rightarrow> string \<Rightarrow> error + bool" where
  "contains (VDict d) key = Inr (map_of d key \<noteq> None)"
| "contains (VList xs) key = Inr (VStr key \<in> set xs)"
| "contains (VStr s) key = Inr (is_substring key s)"
| "contains (VInt i) key = Inl TypeError"
| "contains (VBool b) key = Inl TypeError"
| "contains VNone key = Inl TypeError"

text \<open>
  \<open>x[key]\<close> for a string key: the value on a dictionary (KeyError when absent), a
  TypeError on every other value.
\<close>

fun getitem :: "val \<Rightarrow> string \<Rightarrow> error + val" where
  "getitem (VDict d) key = (case map_of d key of None \<Rightarrow> Inl (KeyError key) | Some v \<Rightarrow> Inr v)"
| "getitem (VList xs) key = Inl TypeError"
| "getitem (VStr s) key = Inl TypeError"
| "getitem (VInt i) key = Inl TypeError"
| "getitem (VBool b) key = Inl TypeError"
| "getitem VNone key = Inl TypeError"

text \<open>\<open>os.path.join a b\<close> on POSIX, for two components.\<close>

definition path_join :: "string \<Rightarrow> string \<Rightarrow> string" where
  "path_join a b =
     (if b \<noteq> [] \<and> hd b = CHR ''/'' then b
      else if a = [] \<or> last a = CHR ''/'' then a @ b
      else a @ ''/'' @ b)"

section \<open>MD5 (\<open>hashlib.md5(...).hexdigest()\<close>)\<close>

text \<open>RFC 1321 on a list of bytes; the digest is printed in lower-case hexadecimal.\<close>

type_synonym u8 = "8 word"
type_synonym u32 = "32 word"

definition md5_shifts :: "nat list" where
  "md5_shifts =
     concat (replicate 4 [7, 12, 17, 22]) @ concat (replicate 4 [5, 9, 14, 20]) @
     concat (replicate 4 [4, 11, 16, 23]) @ concat (replicate 4 [6, 10, 15, 21])"

definition md5_sines :: "u32 list" where
  "md5_sines =
    [0xd76aa478, 0xe8c7b756, 0x242070db, 0xc1bdceee, 0xf57c0faf, 0x4787c62a, 0xa8304613, 0xfd469501,
     0x698098d8, 0x8b44f7af, 0xffff5bb1, 0x895cd7be, 0x6b901122, 0xfd987193, 0xa679438e, 0x49b40821,
     0xf61e2562, 0xc040b340, 0x265e5a51, 0xe9b6c7aa, 0xd62f105d, 0x02441453, 0xd8a1e681, 0xe7d3fbc8,
     0x21e1cde6, 0xc33707d6, 0xf4d50d87, 0x455a14ed, 0xa9e3e905, 0xfcefa3f8, 0x676f02d9, 0x8d2a4c8a,
     0xfffa3942, 0x8771f681, 0x6d9d6122, 0xfde5380c, 0xa4beea44, 0x4bdecfa9, 0xf6bb4b60, 0xbebfbc70,
     0x289b7ec6, 0xeaa127fa, 0xd4ef3085, 0x04881d05, 0xd9d4d039, 0xe6db99e5, 0x1fa27cf8, 0xc4ac5665,
     0xf4292244, 0x432aff97, 0xab9423a7, 0xfc93a039, 0x655b59c3, 0x8f0ccc92, 0xffeff47d, 0x85845dd1,
     0x6fa87e4f, 0xfe2ce6e0, 0xa3014314, 0x4e0811a1, 0xf7537e82, 0xbd3af235, 0x2ad7d2bb, 0xeb86d391]"

fun le_bytes :: "nat \<Rightarrow> 'a::len word \<Rightarrow> u8 list" where
  "le_bytes 0 w = []"
| "le_bytes (Suc n) w = ucast w # le_bytes n (drop_bit 8 w)"

fun le_word :: "u8 list \<Rightarrow> u32" where
  "le_word [] = 0"
| "le_word (b # bs) = ucast b OR push_bit 8 (le_word bs)"

definition md5_pad :: "u8 list \<Rightarrow> u8 list" where
  "md5_pad msg =
     msg @ [0x80] @ replicate ((119 - length msg mod 64) mod 64) 0 @
     le_bytes 8 (of_nat (8 * length msg) :: 64 word)"

fun chunks :: "nat \<Rightarrow> nat \<Rightarrow> 'a list \<Rightarrow> 'a list list" where
  "chunks 0 k xs = []"
| "chunks (Suc n) k xs = take k xs # chunks n k (drop k xs)"

definition md5_words :: "u8 list \<Rightarrow> u32 list" where
  "md5_words block = map le_word (chunks 16 4 block)"

type_synonym md5_state = "u32 \<times> u32 \<times> u32 \<times> u32"

definition md5_step :: "u32 list \<Rightarrow> md5_state \<Rightarrow> nat \<Rightarrow> md5_state" where
  "md5_step m st i =
     (case st of (a, b, c, d) \<Rightarrow>
        let (f, g) =
              (if i < 16 then ((b AND c) OR (NOT b AND d), i)
               else if i < 32 then ((d AND b) OR (NOT d AND c), (5 * i + 1) mod 16)
               else if i < 48 then (b XOR c XOR d, (3 * i + 5) mod 16)
               else (c XOR (b OR NOT d), (7 * i) mod 16));
            f' = f + a + md5_sines ! i + m ! g
        in (d, b + word_rotl (md5_shifts ! i) f', b, c))"

definition md5_block :: "md5_state \<Rightarrow> u8 list \<Rightarrow> md5_state" where
  "md5_block st block =
     (case st of (a0, b0, c0, d0) \<Rightarrow>
        case foldl (md5_step (md5_words block)) st [0..<64] of (a, b, c, d) \<Rightarrow>
          (a0 + a, b0 + b, c0 + c, d0 + d))"

definition md5_digest :: "u8 list \<Rightarrow> u8 list" where
  "md5_digest msg =
     (let padded = md5_pad msg;
          st = foldl md5_block (0x67452301, 0xefcdab89, 0x98badcfe, 0x10325476)
                 (chunks (length padded div 64) 64 padded)
      in case st of (a, b, c, d) \<Rightarrow> concat (map (le_bytes 4) [a, b, c, d]))"

definition hex_digit :: "nat \<Rightarrow> char" where
  "hex_digit n = ''0123456789abcdef'' ! (n mod 16)"

definition hex_byte :: "u8 \<Rightarrow> string" where
  "hex_byte b = [hex_digit (unat b div 16), hex_digit (unat b)]"

definition md5_hexdigest :: "string \<Rightarrow> string" where
  "md5_hexdigest s = concat (map hex_byte (md5_digest (map of_char s)))"

section \<open>The runner and its collaborators\<close>

type_synonym command = string

text \<open>
  The parsed command line: the two attributes that \<open>TerraformRunner\<close> reads, and the
  remaining ones, which are only forwarded to the command generator.
\<close>

record args =
  subcommand :: string
  terraform_path :: "string option"
  other_args :: dict

text \<open>\<open>TerraformConfigGenerator(composition_order, excluded_config_keys)\<close>.\<close>

record terraform_config_generator =
  composition_order :: val
  excluded_config_keys :: val

text \<open>
  The fields of \<open>TerraformRunner\<close> that are never assigned after construction, and the
  code outside this file that its methods call. The outcome of a call that acts on the
  outside world is a function of its arguments and of the number of earlier calls, so
  that any sequence of outcomes can be described:
  \<^item> \<open>execute r n command\<close> is the exit status of the \<open>n\<close>-th call (from 0) of \<open>self.execute\<close>;
  \<^item> \<open>generate_files r n g config_path path composition\<close> is \<open>None\<close> when the \<open>n\<close>-th call
    of \<open>generate_files\<close> returns, and the message of the exception when it raises;
  \<^item> \<open>generate r a config\<close> is the command that
    \<open>TerraformCommandGenerator(root_dir, config, ...).generate(a)\<close> returns;
  \<^item> \<open>ops_config r\<close> is \<open>cluster_config.ops_config.config\<close>, and \<open>terraform_config_path r\<close>
    is \<open>ops_config.terraform_config_path\<close>;
  \<^item> \<open>get_sorted_compositions r g config_path reverse\<close> is the list that the resolver of
    the generator \<open>g\<close> returns;
  \<^item> \<open>ops_version\<close> and \<open>version_less\<close> are the running version and the version comparison
    that \<open>validate_ops_version\<close> uses;
  \<^item> \<open>str_of\<close> is Python's \<open>str\<close> on configuration values, \<open>isdir\<close> is \<open>os.path.isdir\<close>.
  The command generator and the resolver are taken to return and to leave the cluster
  configuration alone; \<open>generate_files\<close> may raise.
\<close>

record runner =
  cluster_config_path :: string
  root_dir :: string
  terraform_config_path :: string
  ops_config :: val
  ops_version :: string
  version_less :: "string \<Rightarrow> string \<Rightarrow> bool"
  str_of :: "val \<Rightarrow> string"
  isdir :: "string \<Rightarrow> bool"
  get_sorted_compositions :: "terraform_config_generator \<Rightarrow> string \<Rightarrow> bool \<Rightarrow> string list"
  generate_files :: "nat \<Rightarrow> terraform_config_generator \<Rightarrow> string \<Rightarrow> string \<Rightarrow> string \<Rightarrow> string option"
  generate :: "args \<Rightarrow> dict \<Rightarrow> command"
  execute :: "nat \<Rightarrow> command \<Rightarrow> int"

text \<open>What a run does to the outside world, in order.\<close>

datatype level = INFO | ERROR

datatype notice =
    SetConfigFile string
  | RunningComposition string
  | SkippingComposition string string
  | NonzeroExitCode string

datatype event =
    Log level notice
  | BasicConfig level
  | SetEnv string string
  | GetSortedCompositions string bool
  | GenerateFiles string string string
  | Execute command

text \<open>
  The mutable state: \<open>os.environ\<close>, the dictionary of \<open>self.cluster_config\<close>, the events
  so far, and the numbers of calls of \<open>generate_files\<close> and \<open>self.execute\<close> so far. The
  class of \<open>cluster_config\<close> is not in this file; as in the spec, it is a mapping from
  string keys to nested values, read as \<open>cluster_config.conf\<close> and updated in place by
  \<open>config[key] = value\<close>.
\<close>

record world =
  environ :: "(string \<times> string) list"
  cluster_config :: dict
  trace :: "event list"
  generations :: nat
  executions :: nat

definition emit :: "event \<Rightarrow> world \<Rightarrow> world" where
  "emit e w = w\<lparr>trace := trace w @ [e]\<rparr>"

text \<open>
  Modelled from the spec: \<open>validate_ops_version\<close> of the package \<open>ops\<close>, which is not in
  this file. It fails when the declared minimum version is strictly greater than the
  running version under the version comparison, and does nothing otherwise.
\<close>

definition validate_ops_version :: "runner \<Rightarrow> string \<Rightarrow> error + unit" where
  "validate_ops_version r ops_min_version =
     (if version_less r (ops_version r) ops_min_version
      then Inl (VersionIncompatible (ops_version r) ops_min_version)
      else Inr ())"

text \<open>
  Modelled from the spec: a comparison of dotted numeric version strings, component by
  component, for use as \<open>version_less\<close> in examples.
\<close>

fun split_dots :: "string \<Rightarrow> string \<Rightarrow> string list" where
  "split_dots acc [] = [rev acc]"
| "split_dots acc (c # cs) =
     (if c = CHR ''.'' then rev acc # split_dots [] cs else split_dots (c # acc) cs)"

definition decimal :: "string \<Rightarrow> nat" where
  "decimal s = foldl (\<lambda>n c. 10 * n + (of_char c - 48)) 0 s"

fun components_less :: "nat list \<Rightarrow> nat list \<Rightarrow> bool" where
  "components_less [] [] = False"
| "components_less [] (y # ys) = True"
| "components_less (x # xs) [] = False"
| "components_less (x # xs) (y # ys) = (x < y \<or> (x = y \<and> components_less xs ys))"

definition dotted_less :: "string \<Rightarrow> string \<Rightarrow> bool" where
  "dotted_less a b =
     components_less (map decimal (split_dots [] a)) (map decimal (split_dots [] b))"

section \<open>\<open>TerraformRunner\<close>\<close>

definition check_ops_version :: "runner \<Rightarrow> world \<Rightarrow> (error + unit) \<times> world" where
  "check_ops_version r w =
     (case map_of (cluster_config w) ''terraform'' of
        None \<Rightarrow> (Inr (), w)
      | Some section \<Rightarrow>
          (case contains section ''ops_min_version'' of
             Inl e \<Rightarrow> (Inl e, w)
           | Inr False \<Rightarrow> (Inr (), w)
           | Inr True \<Rightarrow>
               (case getitem section ''ops_min_version'' of
                  Inl e \<Rightarrow> (Inl e, w)
                | Inr v \<Rightarrow> (validate_ops_version r (str_of r v), w))))"

definition run_composition :: "runner \<Rightarrow> args \<Rightarrow> dict \<Rightarrow> command" where
  "run_composition r a config = generate r a config"

definition run_v1_integration :: "runner \<Rightarrow> args \<Rightarrow> world \<Rightarrow> command \<times> world" where
  "run_v1_integration r a w = (run_composition r a (cluster_config w), w)"

definition cluster_id :: "runner \<Rightarrow> string" where
  "cluster_id r = take 6 (md5_hexdigest (cluster_config_path r))"

text \<open>
  Lines 208 to 213: the new dictionary stored under \<open>'terraform'\<close> receives its two keys
  through the reference just stored, which is the same as storing it filled.
\<close>

definition inject :: "runner \<Rightarrow> string \<Rightarrow> string \<Rightarrow> dict \<Rightarrow> dict" where
  "inject r tpath composition config =
     (let section = AList.update ''variables_file'' (VStr ''variables.tfvars.json'')
                      (AList.update ''path'' (VStr (tpath @ composition)) []);
          config = AList.update ''terraform'' (VDict section) config
      in AList.update ''cluster'' (VStr (''auto_generated_'' @ cluster_id r)) config)"

definition run_v2_composition :: "runner \<Rightarrow> args \<Rightarrow> string \<Rightarrow> string \<Rightarrow> world \<Rightarrow> command \<times> world" where
  "run_v2_composition r a tpath composition w =
     (let config = inject r tpath composition (cluster_config w)
      in (run_composition r a config, w\<lparr>cluster_config := config\<rparr>))"

text \<open>
  The calls \<open>tf_config_generator.generate_files(...)\<close> and \<open>self.execute(command)\<close> of the
  loop: each is recorded, counted, and answered by the collaborator.
\<close>

definition call_generate_files ::
  "runner \<Rightarrow> terraform_config_generator \<Rightarrow> string \<Rightarrow> string \<Rightarrow> string \<Rightarrow> world \<Rightarrow> (error + unit) \<times> world" where
  "call_generate_files r g config_path tpath composition w =
     (let w' = (emit (GenerateFiles config_path tpath composition) w)\<lparr>generations := Suc (generations w)\<rparr>
      in case generate_files r (generations w) g config_path tpath composition of
           None \<Rightarrow> (Inr (), w')
         | Some msg \<Rightarrow> (Inl (CollaboratorFailure msg), w'))"

definition call_execute :: "runner \<Rightarrow> command \<Rightarrow> world \<Rightarrow> int \<times> world" where
  "call_execute r cmd w =
     (execute r (executions w) cmd, (emit (Execute cmd) w)\<lparr>executions := Suc (executions w)\<rparr>)"

text \<open>
  The \<open>for\<close> loop of \<open>run_v2_compositions\<close>, with its two variables \<open>should_finish\<close> and
  \<open>return_code\<close>. An exception of \<open>generate_files\<close> leaves the loop.
\<close>

fun compositions_loop ::
  "runner \<Rightarrow> args \<Rightarrow> string \<Rightarrow> terraform_config_generator \<Rightarrow> string \<Rightarrow> string list \<Rightarrow>
   bool \<Rightarrow> int \<Rightarrow> world \<Rightarrow> (error + int) \<times> world" where
  "compositions_loop r a config_path g tpath [] should_finish return_code w = (Inr return_code, w)"
| "compositions_loop r a config_path g tpath (composition # rest) should_finish return_code w =
     (if should_finish
      then compositions_loop r a config_path g tpath rest should_finish return_code
             (emit (Log INFO (SkippingComposition (subcommand a) composition)) w)
      else
        (case call_generate_files r g config_path tpath composition
                (emit (Log INFO (RunningComposition composition)) w) of
           (Inl e, w1) \<Rightarrow> (Inl e, w1)
         | (Inr u, w1) \<Rightarrow>
             (case run_v2_composition r a tpath composition w1 of
                (cmd, w2) \<Rightarrow>
                  (case call_execute r cmd w2 of
                     (return_code', w3) \<Rightarrow>
                       if return_code' \<noteq> 0
                       then compositions_loop r a config_path g tpath rest True return_code'
                              (emit (Log ERROR (NonzeroExitCode composition)) w3)
                       else compositions_loop r a config_path g tpath rest should_finish return_code' w3))))"

definition run_v2_compositions ::
  "runner \<Rightarrow> args \<Rightarrow> string \<Rightarrow> terraform_config_generator \<Rightarrow> string \<Rightarrow> string list \<Rightarrow>
   world \<Rightarrow> (error + int) \<times> world" where
  "run_v2_compositions r a config_path g tpath compositions w =
     compositions_loop r a config_path g tpath compositions False 0 w"

text \<open>The two configuration lookups of \<open>run_v2_integration\<close>, in the order of the source.\<close>

definition composition_settings :: "runner \<Rightarrow> error + terraform_config_generator" where
  "composition_settings r =
     (case getitem (ops_config r) ''compositions'' of
        Inl e \<Rightarrow> Inl e
      | Inr c \<Rightarrow>
          (case getitem c ''order'' of
             Inl e \<Rightarrow> Inl e
           | Inr ord \<Rightarrow>
               (case getitem ord ''terraform'' of
                  Inl e \<Rightarrow> Inl e
                | Inr order \<Rightarrow>
                    (case getitem c ''excluded_config_keys'' of
                       Inl e \<Rightarrow> Inl e
                     | Inr excluded \<Rightarrow>
                         Inr \<lparr>composition_order = order, excluded_config_keys = excluded\<rparr>))))"

definition run_v2_integration :: "runner \<Rightarrow> args \<Rightarrow> world \<Rightarrow> (error + int) \<times> world" where
  "run_v2_integration r a w =
     (let w1 = emit (BasicConfig INFO) w;
          config_path = path_join (cluster_config_path r) [];
          tpath = (case terraform_path a of
                     None \<Rightarrow> ''../ee-k8s-infra/''
                   | Some p \<Rightarrow> path_join p []);
          tpath = tpath @ ''compositions/terraform/''
      in case composition_settings r of
           Inl e \<Rightarrow> (Inl e, w1)
         | Inr tf_config_generator \<Rightarrow>
             let reverse_order = (''destroy'' = subcommand a);
                 compositions = get_sorted_compositions r tf_config_generator config_path reverse_order;
                 w2 = emit (GetSortedCompositions config_path reverse_order) w1
             in if length compositions = 0
                then (Inl (NoCompositionsDetected config_path), w2)
                else run_v2_compositions r a config_path tf_config_generator tpath compositions w2)"

text \<open>
  \<open>run\<close> returns the exit status of the loop for a directory and the command otherwise.
  \<open>prepare_environment\<close> is lines 152 to 154 of \<open>run\<close>.
\<close>

datatype run_result = ReturnCode int | Command command

definition prepare_environment :: "runner \<Rightarrow> world \<Rightarrow> world" where
  "prepare_environment r w =
     (let terraform_config_path' =
            (case map_of (environ w) ''TF_CLI_CONFIG_FILE'' of
               Some v \<Rightarrow> v
             | None \<Rightarrow> terraform_config_path r);
          w1 = emit (SetEnv ''TF_CLI_CONFIG_FILE'' terraform_config_path')
                 (w\<lparr>environ := AList.update ''TF_CLI_CONFIG_FILE'' terraform_config_path' (environ w)\<rparr>)
      in emit (Log INFO (SetConfigFile terraform_config_path')) w1)"

definition run :: "runner \<Rightarrow> args \<Rightarrow> world \<Rightarrow> (error + run_result) \<times> world" where
  "run r a w =
     (case check_ops_version r w of
        (Inl e, w0) \<Rightarrow> (Inl e, w0)
      | (Inr u, w0) \<Rightarrow>
          let w1 = prepare_environment r w0
          in if isdir r (cluster_config_path r)
             then (case run_v2_integration r a w1 of
                     (Inl e, w2) \<Rightarrow> (Inl e, w2)
                   | (Inr return_code, w2) \<Rightarrow> (Inr (ReturnCode return_code), w2))
             else (case run_v1_integration r a w1 of
                     (cmd, w2) \<Rightarrow> (Inr (Command cmd), w2)))"

section \<open>Observations on a run\<close>

text \<open>
  The command that \<open>run_v2_composition\<close> returns for a unit, when the configuration
  at the start of the loop is \<open>config\<close>.
\<close>

definition unit_command :: "runner \<Rightarrow> args \<Rightarrow> string \<Rightarrow> dict \<Rightarrow> string \<Rightarrow> command" where
  "unit_command r a tpath config composition = run_composition r a (inject r tpath composition config)"

text \<open>The events of one unit that is processed: its start notice, the generation of its
  files and the execution of its command.\<close>

definition unit_events :: "string \<Rightarrow> string \<Rightarrow> string \<Rightarrow> command \<Rightarrow> event list" where
  "unit_events config_path tpath composition cmd =
     [Log INFO (RunningComposition composition), GenerateFiles config_path tpath composition, Execute cmd]"

text \<open>The state after a unit has been processed and its command has been executed.\<close>

definition after_unit :: "runner \<Rightarrow> args \<Rightarrow> string \<Rightarrow> string \<Rightarrow> world \<Rightarrow> string \<Rightarrow> world" where
  "after_unit r a config_path tpath w composition =
     w\<lparr>cluster_config := inject r tpath composition (cluster_config w),
       trace := trace w @ unit_events config_path tpath composition
                            (unit_command r a tpath (cluster_config w) composition),
       generations := Suc (generations w),
       executions := Suc (executions w)\<rparr>"

text \<open>
  For a loop over \<open>cs\<close> that starts in \<open>w\<close>: the exit status of the executor for the
  unit at position \<open>i\<close> (from 0), and whether \<open>generate_files\<close> returns for it. The
  unit at position \<open>i\<close> is the subject of call \<open>i\<close> of either collaborator, counted from
  the start of the loop.
\<close>

definition unit_status :: "runner \<Rightarrow> args \<Rightarrow> string \<Rightarrow> world \<Rightarrow> string list \<Rightarrow> nat \<Rightarrow> int" where
  "unit_status r a tpath w cs i =
     execute r (executions w + i) (unit_command r a tpath (cluster_config w) (cs ! i))"

definition generation_ok ::
  "runner \<Rightarrow> terraform_config_generator \<Rightarrow> string \<Rightarrow> string \<Rightarrow> world \<Rightarrow> string list \<Rightarrow> nat \<Rightarrow> bool" where
  "generation_ok r g config_path tpath w cs i =
     (generate_files r (generations w + i) g config_path tpath (cs ! i) = None)"

text \<open>The events of a sequence of processed units, and the skip notices of a sequence of
  skipped units.\<close>

definition processed :: "runner \<Rightarrow> args \<Rightarrow> string \<Rightarrow> string \<Rightarrow> world \<Rightarrow> string list \<Rightarrow> event list" where
  "processed r a config_path tpath w cs =
     concat (map (\<lambda>c. unit_events config_path tpath c (unit_command r a tpath (cluster_config w) c)) cs)"

definition skipped :: "args \<Rightarrow> string list \<Rightarrow> event list" where
  "skipped a cs = map (\<lambda>c. Log INFO (SkippingComposition (subcommand a) c)) cs"

text \<open>Kinds of events.\<close>

fun is_unit_event :: "event \<Rightarrow> bool" where
  "is_unit_event (Log l n) = True"
| "is_unit_event (GenerateFiles p q c) = True"
| "is_unit_event (Execute cmd) = True"
| "is_unit_event (BasicConfig l) = False"
| "is_unit_event (SetEnv n v) = False"
| "is_unit_event (GetSortedCompositions p b) = False"

fun is_resolver_call :: "event \<Rightarrow> bool" where
  "is_resolver_call (GetSortedCompositions p b) = True"
| "is_resolver_call (Log l n) = False"
| "is_resolver_call (GenerateFiles p q c) = False"
| "is_resolver_call (Execute cmd) = False"
| "is_resolver_call (BasicConfig l) = False"
| "is_resolver_call (SetEnv n v) = False"

fun is_set_env :: "event \<Rightarrow> bool" where
  "is_set_env (SetEnv n v) = True"
| "is_set_env (Log l n) = False"
| "is_set_env (GenerateFiles p q c) = False"
| "is_set_env (Execute cmd) = False"
| "is_set_env (BasicConfig l) = False"
| "is_set_env (GetSortedCompositions p b) = False"

text \<open>
  What the loop leaves alone between two states: the environment, the events so far
  (it only adds notices, generations and executions), and every key of the cluster
  configuration other than \<open>'terraform'\<close> and \<open>'cluster'\<close>.
\<close>

definition frame :: "world \<Rightarrow> world \<Rightarrow> bool" where
  "frame w w' \<longleftrightarrow>
     environ w' = environ w \<and>
     (\<exists>evs. trace w' = trace w @ evs \<and> (\<forall>e\<in>set evs. is_unit_event e)) \<and>
     (\<forall>k. k \<noteq> ''terraform'' \<and> k \<noteq> ''cluster'' \<longrightarrow>
        map_of (cluster_config w') k = map_of (cluster_config w) k)"

text \<open>The path that line 152 of \<open>run\<close> resolves.\<close>

definition resolved_config_file :: "runner \<Rightarrow> world \<Rightarrow> string" where
  "resolved_config_file r w =
     (case map_of (environ w) ''TF_CLI_CONFIG_FILE'' of
        Some v \<Rightarrow> v
      | None \<Rightarrow> terraform_config_path r)"

section \<open>Example inputs\<close>

text \<open>
  A run over the units \<open>network\<close>, \<open>compute\<close> and \<open>data\<close>, in which the second call of
  the executor returns 1.
\<close>

definition example_runner :: runner where
  "example_runner =
     \<lparr>cluster_config_path = ''data/env=dev/cluster=experiments'',
      root_dir = ''.'',
      terraform_config_path = ''/etc/terraformrc'',
      ops_config =
        VDict [(''compositions'',
                VDict [(''order'', VDict [(''terraform'',
                          VList [VStr ''network'', VStr ''compute'', VStr ''data''])]),
                       (''excluded_config_keys'', VDict [])])],
      ops_version = ''2.0.0'',
      version_less = dotted_less,
      str_of = (\<lambda>v. case v of VStr s \<Rightarrow> s | _ \<Rightarrow> []),
      isdir = (\<lambda>p. True),
      get_sorted_compositions =
        (\<lambda>g p reverse. if reverse then [''data'', ''compute'', ''network'']
                         else [''network'', ''compute'', ''data'']),
      generate_files = (\<lambda>n g p q c. None),
      generate = (\<lambda>a config. ''terraform '' @ subcommand a),
      execute = (\<lambda>n cmd. if n = 1 then 1 else 0)\<rparr>"

definition example_generator :: terraform_config_generator where
  "example_generator =
     \<lparr>composition_order = VList [VStr ''network'', VStr ''compute'', VStr ''data''],
      excluded_config_keys = VDict []\<rparr>"

definition example_args :: args where
  "example_args = \<lparr>subcommand = ''apply'', terraform_path = None, other_args = []\<rparr>"

definition example_world :: world where
  "example_world =
     \<lparr>environ = [(''TF_CLI_CONFIG_FILE'', ''/home/ops/terraformrc'')],
      cluster_config = [(''region'', VStr ''va6'')],
      trace = [],
      generations = 0,
      executions = 0\<rparr>"

text \<open>A cluster configuration that requires a newer version than the running one.\<close>

definition gated_world :: world where
  "gated_world =
     example_world\<lparr>cluster_config :=
       [(''terraform'', VDict [(''ops_min_version'', VStr ''2.1.0'')])]\<rparr>"

text \<open>Three configuration paths that differ in one component.\<close>

definition example_paths :: "string list" where
  "example_paths =
     [''data/env=dev/cluster=experiments'',
      ''data/env=dev/cluster=production'',
      ''data/env=prod/cluster=experiments'']"

text \<open>A run in which the first call of \<open>generate_files\<close> raises.\<close>

definition failing_runner :: runner where
  "failing_runner =
     example_runner\<lparr>generate_files := \<lambda>n g p q c. if n = 0 then Some ''template error'' else None\<rparr>"

section \<open>Properties\<close>

subsection \<open>The loop of \<open>run_v2_compositions\<close>\<close>

lemma trace_emit: "trace (emit e w) = trace w @ [e]"
  and environ_emit: "environ (emit e w) = environ w"
  and cluster_config_emit: "cluster_config (emit e w) = cluster_config w"
  and generations_emit: "generations (emit e w) = generations w"
  and executions_emit: "executions (emit e w) = executions w"
  by (simp_all add: emit_def)

lemma update_update_other:
  "k \<noteq> k' \<Longrightarrow>
   AList.update k' b' (AList.update k a' (AList.update k' b (AList.update k a al))) =
   AList.update k' b' (AList.update k a' al)"
  by (induction al) auto

lemma inject_inject: "inject r tpath' c' (inject r tpath c config) = inject r tpath' c' config"
  by (simp add: inject_def Let_def update_update_other)

lemma loop_skips:
  "compositions_loop r a cp g tp cs True rc w =
     (Inr rc, w\<lparr>trace := trace w @ map (\<lambda>c. Log INFO (SkippingComposition (subcommand a) c)) cs\<rparr>)"
  by (induction cs arbitrary: w) (simp_all add: emit_def)

lemma loop_unit_ok:
  assumes "generate_files r (generations w) g cp tp c = None"
    and "execute r (executions w) (unit_command r a tp (cluster_config w) c) = 0"
  shows "compositions_loop r a cp g tp (c # rest) False rc w =
         compositions_loop r a cp g tp rest False 0 (after_unit r a cp tp w c)"
  using assms
  by (cases w)
    (simp add: call_generate_files_def call_execute_def run_v2_composition_def Let_def
      unit_command_def after_unit_def unit_events_def emit_def)

lemma loop_unit_nonzero:
  assumes "generate_files r (generations w) g cp tp c = None"
    and "execute r (executions w) (unit_command r a tp (cluster_config w) c) = s" and "s \<noteq> 0"
  shows "compositions_loop r a cp g tp (c # rest) False rc w =
         compositions_loop r a cp g tp rest True s
           (emit (Log ERROR (NonzeroExitCode c)) (after_unit r a cp tp w c))"
  using assms
  by (cases w)
    (simp add: call_generate_files_def call_execute_def run_v2_composition_def Let_def
      unit_command_def after_unit_def unit_events_def emit_def)

lemma loop_unit_raises:
  assumes "generate_files r (generations w) g cp tp c = Some msg"
  shows "compositions_loop r a cp g tp (c # rest) False rc w =
         (Inl (CollaboratorFailure msg),
          w\<lparr>trace := trace w @ [Log INFO (RunningComposition c), GenerateFiles cp tp c],
            generations := Suc (generations w)\<rparr>)"
  using assms
  by (cases w) (simp add: call_generate_files_def Let_def emit_def)

lemma unit_command_after_unit:
  "unit_command r a tp (cluster_config (after_unit r a cp tp' w c)) c' =
   unit_command r a tp (cluster_config w) c'"
  by (simp add: unit_command_def after_unit_def inject_inject)

lemma counters_after_unit:
  "generations (after_unit r a cp tp w c) = Suc (generations w)"
  "executions (after_unit r a cp tp w c) = Suc (executions w)"
  "environ (after_unit r a cp tp w c) = environ w"
  by (simp_all add: after_unit_def)

lemma after_units_fields:
  "generations (foldl (after_unit r a cp tp) w cs) = generations w + length cs"
  "executions (foldl (after_unit r a cp tp) w cs) = executions w + length cs"
  "environ (foldl (after_unit r a cp tp) w cs) = environ w"
  by (induction cs arbitrary: w) (simp_all add: counters_after_unit)

lemma after_units_trace:
  "trace (foldl (after_unit r a cp tp) w cs) = trace w @ processed r a cp tp w cs"
proof (induction cs arbitrary: w)
  case Nil
  show ?case by (simp add: processed_def)
next
  case (Cons c cs)
  have "processed r a cp tp (after_unit r a cp tp w c) cs = processed r a cp tp w cs"
    by (simp add: processed_def unit_command_after_unit)
  moreover have "trace (after_unit r a cp tp w c) =
      trace w @ unit_events cp tp c (unit_command r a tp (cluster_config w) c)"
    by (simp add: after_unit_def)
  ultimately show ?case
    using Cons.IH [of "after_unit r a cp tp w c"] by (simp add: processed_def)
qed

lemma after_units_command:
  "unit_command r a tp (cluster_config (foldl (after_unit r a cp tp) w cs)) c' =
   unit_command r a tp (cluster_config w) c'"
  by (induction cs arbitrary: w) (simp_all add: unit_command_after_unit)

lemma loop_prefix_ok:
  assumes "\<forall>i<length pre. generation_ok r g cp tp w (pre @ rest) i \<and> unit_status r a tp w (pre @ rest) i = 0"
  shows "compositions_loop r a cp g tp (pre @ rest) False rc w =
         compositions_loop r a cp g tp rest False (if pre = [] then rc else 0)
           (foldl (after_unit r a cp tp) w pre)"
  using assms
proof (induction pre arbitrary: w rc)
  case Nil
  show ?case by simp
next
  case (Cons c pre)
  let ?w = "after_unit r a cp tp w c"
  from Cons.prems have first: "generate_files r (generations w) g cp tp c = None"
    "execute r (executions w) (unit_command r a tp (cluster_config w) c) = 0"
    by (auto simp: generation_ok_def unit_status_def)
  have later: "\<forall>i<length pre. generation_ok r g cp tp ?w (pre @ rest) i \<and>
      unit_status r a tp ?w (pre @ rest) i = 0"
  proof (intro allI impI)
    fix i assume "i < length pre"
    then have "generation_ok r g cp tp w ((c # pre) @ rest) (Suc i) \<and>
        unit_status r a tp w ((c # pre) @ rest) (Suc i) = 0"
      using Cons.prems by auto
    then show "generation_ok r g cp tp ?w (pre @ rest) i \<and> unit_status r a tp ?w (pre @ rest) i = 0"
      by (simp add: generation_ok_def unit_status_def counters_after_unit unit_command_after_unit)
  qed
  have "compositions_loop r a cp g tp ((c # pre) @ rest) False rc w =
        compositions_loop r a cp g tp (pre @ rest) False 0 ?w"
    using loop_unit_ok [OF first] by simp
  also have "\<dots> = compositions_loop r a cp g tp rest False (if pre = [] then 0 else 0)
      (foldl (after_unit r a cp tp) ?w pre)"
    by (rule Cons.IH [OF later])
  finally show ?case by simp
qed

lemma loop_first_failure:
  assumes k: "k < length cs"
    and gen: "\<forall>i\<le>k. generation_ok r g cp tp w cs i"
    and zero: "\<forall>i<k. unit_status r a tp w cs i = 0"
    and fail: "unit_status r a tp w cs k \<noteq> 0"
  shows "compositions_loop r a cp g tp cs False rc w =
         (Inr (unit_status r a tp w cs k),
          (foldl (after_unit r a cp tp) w (take (Suc k) cs))
            \<lparr>trace := trace w @ processed r a cp tp w (take (Suc k) cs) @
                       [Log ERROR (NonzeroExitCode (cs ! k))] @ skipped a (drop (Suc k) cs)\<rparr>)"
proof -
  let ?pre = "take k cs" and ?c = "cs ! k" and ?post = "drop (Suc k) cs"
  let ?w = "foldl (after_unit r a cp tp) w ?pre"
  have split: "cs = ?pre @ ?c # ?post"
    using k by (simp add: id_take_nth_drop)
  have len: "length ?pre = k"
    using k by simp
  have "\<forall>i<length ?pre. generation_ok r g cp tp w cs i \<and> unit_status r a tp w cs i = 0"
    using gen zero len by simp
  then have pre: "\<forall>i<length ?pre. generation_ok r g cp tp w (?pre @ ?c # ?post) i \<and>
      unit_status r a tp w (?pre @ ?c # ?post) i = 0"
    using split by simp
  have step1: "compositions_loop r a cp g tp cs False rc w =
      compositions_loop r a cp g tp (?c # ?post) False (if ?pre = [] then rc else 0) ?w"
    using loop_prefix_ok [OF pre, of rc] split by simp
  have g: "generate_files r (generations ?w) g cp tp ?c = None"
    using gen len by (simp add: generation_ok_def after_units_fields)
  have e: "execute r (executions ?w) (unit_command r a tp (cluster_config ?w) ?c) =
      unit_status r a tp w cs k"
    using len by (simp add: unit_status_def after_units_fields after_units_command)
  have step2: "compositions_loop r a cp g tp (?c # ?post) False (if ?pre = [] then rc else 0) ?w =
      compositions_loop r a cp g tp ?post True (unit_status r a tp w cs k)
        (emit (Log ERROR (NonzeroExitCode ?c)) (after_unit r a cp tp ?w ?c))"
    by (rule loop_unit_nonzero [OF g e fail])
  have fold: "after_unit r a cp tp ?w ?c = foldl (after_unit r a cp tp) w (take (Suc k) cs)"
    using k by (simp add: take_Suc_conv_app_nth)
  show ?thesis
    unfolding step1 step2 loop_skips fold
    by (simp add: emit_def after_units_trace skipped_def)
qed

lemma loop_all_zero:
  assumes "\<forall>i<length cs. generation_ok r g cp tp w cs i \<and> unit_status r a tp w cs i = 0"
  shows "compositions_loop r a cp g tp cs False rc w =
         (Inr (if cs = [] then rc else 0), foldl (after_unit r a cp tp) w cs)"
  using loop_prefix_ok [of cs r g cp tp w "[]" a rc] assms by simp

text \<open>
  Claim C1 (run-loop halt semantics). Units are counted from 0 here, so the unit at
  position \<open>k\<close> is the claim's unit \<open>k + 1\<close>. For any sequence of compositions and any
  exit statuses of the executor: if the unit at position \<open>k\<close> is the first whose
  executor returns a non-zero status (the files of the units up to it being generated
  without failure), then \<open>run_v2_compositions\<close> returns that status, and the events it
  adds are, in this order and nothing else: for each unit up to position \<open>k\<close>, in the
  order of the list, its start notice, the generation of its files and, right after
  it, the execution of its command; the error notice for unit \<open>k\<close>; one skip notice for
  each later unit, whose files are not generated and whose command is not executed.
  If every unit returns 0, the result is 0 and the events are those of all units, each
  generated and executed once, in the order of the list.
\<close>

theorem run_v2_compositions_halts_at_first_failure:
  "(k < length cs \<and> (\<forall>i\<le>k. generation_ok r g cp tp w cs i) \<and>
    (\<forall>i<k. unit_status r a tp w cs i = 0) \<and> unit_status r a tp w cs k \<noteq> 0 \<longrightarrow>
      fst (run_v2_compositions r a cp g tp cs w) = Inr (unit_status r a tp w cs k) \<and>
      trace (snd (run_v2_compositions r a cp g tp cs w)) =
        trace w @ processed r a cp tp w (take (Suc k) cs) @
        [Log ERROR (NonzeroExitCode (cs ! k))] @ skipped a (drop (Suc k) cs)) \<and>
   ((\<forall>i<length cs. generation_ok r g cp tp w cs i \<and> unit_status r a tp w cs i = 0) \<longrightarrow>
      fst (run_v2_compositions r a cp g tp cs w) = Inr 0 \<and>
      trace (snd (run_v2_compositions r a cp g tp cs w)) = trace w @ processed r a cp tp w cs)"
proof (intro conjI impI)
  assume h: "k < length cs \<and> (\<forall>i\<le>k. generation_ok r g cp tp w cs i) \<and>
    (\<forall>i<k. unit_status r a tp w cs i = 0) \<and> unit_status r a tp w cs k \<noteq> 0"
  then have eq: "compositions_loop r a cp g tp cs False 0 w =
         (Inr (unit_status r a tp w cs k),
          (foldl (after_unit r a cp tp) w (take (Suc k) cs))
            \<lparr>trace := trace w @ processed r a cp tp w (take (Suc k) cs) @
                       [Log ERROR (NonzeroExitCode (cs ! k))] @ skipped a (drop (Suc k) cs)\<rparr>)"
    by (intro loop_first_failure) simp_all
  show "fst (run_v2_compositions r a cp g tp cs w) = Inr (unit_status r a tp w cs k)"
    by (simp add: run_v2_compositions_def eq)
  show "trace (snd (run_v2_compositions r a cp g tp cs w)) =
        trace w @ processed r a cp tp w (take (Suc k) cs) @
        [Log ERROR (NonzeroExitCode (cs ! k))] @ skipped a (drop (Suc k) cs)"
    by (simp add: run_v2_compositions_def eq)
next
  assume h: "\<forall>i<length cs. generation_ok r g cp tp w cs i \<and> unit_status r a tp w cs i = 0"
  have eq: "compositions_loop r a cp g tp cs False 0 w =
      (Inr 0, foldl (after_unit r a cp tp) w cs)"
    using loop_all_zero [OF h, where rc = 0] by simp
  show "fst (run_v2_compositions r a cp g tp cs w) = Inr 0"
    by (simp add: run_v2_compositions_def eq)
  show "trace (snd (run_v2_compositions r a cp g tp cs w)) = trace w @ processed r a cp tp w cs"
    by (simp add: run_v2_compositions_def eq after_units_trace)
qed

theorem run_v2_compositions_halts_at_first_failure_witness:
  "fst (run_v2_compositions example_runner example_args ''c/'' example_generator ''t/''
          [''network'', ''compute'', ''data''] example_world) = Inr 1 \<and>
   trace (snd (run_v2_compositions example_runner example_args ''c/'' example_generator ''t/''
          [''network'', ''compute'', ''data''] example_world)) =
     [Log INFO (RunningComposition ''network''), GenerateFiles ''c/'' ''t/'' ''network'',
      Execute ''terraform apply'',
      Log INFO (RunningComposition ''compute''), GenerateFiles ''c/'' ''t/'' ''compute'',
      Execute ''terraform apply'',
      Log ERROR (NonzeroExitCode ''compute''),
      Log INFO (SkippingComposition ''apply'' ''data'')] \<and>
   fst (run_v2_compositions (example_runner\<lparr>execute := \<lambda>n cmd. 0\<rparr>) example_args ''c/''
          example_generator ''t/'' [''network'', ''compute'', ''data''] example_world) = Inr 0"
proof -
  let ?cs = "[''network'', ''compute'', ''data'']"
  let ?zero = "example_runner\<lparr>execute := \<lambda>n cmd. 0\<rparr>"
  have status: "\<And>i. unit_status example_runner example_args ''t/'' example_world ?cs i =
      (if i = 1 then 1 else 0)"
    by (simp add: unit_status_def example_runner_def example_world_def)
  have gen: "\<And>i. generation_ok example_runner example_generator ''c/'' ''t/'' example_world ?cs i"
    by (simp add: generation_ok_def example_runner_def)
  have h: "1 < length ?cs \<and>
      (\<forall>i\<le>1. generation_ok example_runner example_generator ''c/'' ''t/'' example_world ?cs i) \<and>
      (\<forall>i<1. unit_status example_runner example_args ''t/'' example_world ?cs i = 0) \<and>
      unit_status example_runner example_args ''t/'' example_world ?cs 1 \<noteq> 0"
    by (simp add: status gen)
  have z: "\<forall>i<length ?cs. generation_ok ?zero example_generator ''c/'' ''t/'' example_world ?cs i \<and>
      unit_status ?zero example_args ''t/'' example_world ?cs i = 0"
    by (simp add: generation_ok_def example_runner_def unit_status_def)
  have cmd: "\<And>c. unit_command example_runner example_args ''t/'' (cluster_config example_world) c =
      ''terraform apply''"
    by (simp add: unit_command_def run_composition_def example_runner_def example_args_def)
  have first: "fst (run_v2_compositions example_runner example_args ''c/'' example_generator ''t/''
        ?cs example_world) = Inr (unit_status example_runner example_args ''t/'' example_world ?cs 1)"
    and events: "trace (snd (run_v2_compositions example_runner example_args ''c/''
        example_generator ''t/'' ?cs example_world)) =
      trace example_world @
      processed example_runner example_args ''c/'' ''t/'' example_world (take (Suc 1) ?cs) @
      [Log ERROR (NonzeroExitCode (?cs ! 1))] @ skipped example_args (drop (Suc 1) ?cs)"
    using run_v2_compositions_halts_at_first_failure
        [of 1 ?cs example_runner example_generator "''c/''" "''t/''" example_world example_args] h
    by blast+
  have all: "fst (run_v2_compositions ?zero example_args ''c/'' example_generator ''t/''
        ?cs example_world) = Inr 0"
    using run_v2_compositions_halts_at_first_failure
        [of 0 ?cs ?zero example_generator "''c/''" "''t/''" example_world example_args] z
    by blast
  have "trace example_world = []"
    by (simp add: example_world_def)
  moreover have "processed example_runner example_args ''c/'' ''t/'' example_world (take (Suc 1) ?cs) =
      [Log INFO (RunningComposition ''network''), GenerateFiles ''c/'' ''t/'' ''network'',
       Execute ''terraform apply'',
       Log INFO (RunningComposition ''compute''), GenerateFiles ''c/'' ''t/'' ''compute'',
       Execute ''terraform apply'']"
    by (simp add: processed_def unit_events_def cmd)
  moreover have "skipped example_args (drop (Suc 1) ?cs) =
      [Log INFO (SkippingComposition ''apply'' ''data'')]"
    by (simp add: skipped_def example_args_def)
  ultimately show ?thesis
    using first events all by (simp add: status)
qed

subsection \<open>What the loop leaves unchanged\<close>

lemma frame_refl: "frame w w"
  by (simp add: frame_def)

lemma frame_trans:
  assumes "frame w w'" and "frame w' w''"
  shows "frame w w''"
proof -
  from assms(1) obtain evs where 1: "environ w' = environ w" "trace w' = trace w @ evs"
    "\<forall>e\<in>set evs. is_unit_event e"
    "\<forall>k. k \<noteq> ''terraform'' \<and> k \<noteq> ''cluster'' \<longrightarrow> map_of (cluster_config w') k = map_of (cluster_config w) k"
    unfolding frame_def by blast
  from assms(2) obtain evs' where 2: "environ w'' = environ w'" "trace w'' = trace w' @ evs'"
    "\<forall>e\<in>set evs'. is_unit_event e"
    "\<forall>k. k \<noteq> ''terraform'' \<and> k \<noteq> ''cluster'' \<longrightarrow> map_of (cluster_config w'') k = map_of (cluster_config w') k"
    unfolding frame_def by blast
  have "trace w'' = trace w @ (evs @ evs')" "\<forall>e\<in>set (evs @ evs'). is_unit_event e"
    using 1 2 by auto
  then have "\<exists>evs. trace w'' = trace w @ evs \<and> (\<forall>e\<in>set evs. is_unit_event e)"
    by blast
  then show ?thesis
    unfolding frame_def using 1 2 by simp
qed

lemma frame_emit: "is_unit_event e \<Longrightarrow> frame w (emit e w)"
  by (simp add: frame_def emit_def)

lemma map_of_inject:
  "k \<noteq> ''terraform'' \<Longrightarrow> k \<noteq> ''cluster'' \<Longrightarrow> map_of (inject r tp c config) k = map_of config k"
  by (simp add: inject_def Let_def update_conv')

lemma frame_generate_files: "frame w (snd (call_generate_files r g cp tp c w))"
  by (simp add: frame_def call_generate_files_def Let_def emit_def split: option.splits)

lemma frame_run_v2_composition: "frame w (snd (run_v2_composition r a tp c w))"
  by (simp add: frame_def run_v2_composition_def Let_def map_of_inject)

lemma frame_execute: "frame w (snd (call_execute r cmd w))"
  by (simp add: frame_def call_execute_def emit_def)

lemma frame_loop: "frame w (snd (compositions_loop r a cp g tp cs sf rc w))"
proof (induction cs arbitrary: sf rc w)
  case Nil
  show ?case by (simp add: frame_refl)
next
  case (Cons c cs)
  show ?case
  proof (cases sf)
    case True
    let ?w0 = "emit (Log INFO (SkippingComposition (subcommand a) c)) w"
    have "frame w ?w0"
      by (simp add: frame_emit)
    then have "frame w (snd (compositions_loop r a cp g tp cs sf rc ?w0))"
      using Cons.IH frame_trans by blast
    then show ?thesis
      using True by simp
  next
    case False
    let ?w0 = "emit (Log INFO (RunningComposition c)) w"
    obtain res w1 where gen: "call_generate_files r g cp tp c ?w0 = (res, w1)"
      by (cases "call_generate_files r g cp tp c ?w0")
    have "frame w ?w0"
      by (simp add: frame_emit)
    moreover have "frame ?w0 w1"
      using frame_generate_files [of ?w0 r g cp tp c] gen by simp
    ultimately have f1: "frame w w1"
      by (rule frame_trans)
    show ?thesis
    proof (cases res)
      case (Inl e)
      then show ?thesis using False gen f1 by simp
    next
      case (Inr u)
      obtain cmd w2 where comp: "run_v2_composition r a tp c w1 = (cmd, w2)"
        by (cases "run_v2_composition r a tp c w1")
      obtain code w3 where ex: "call_execute r cmd w2 = (code, w3)"
        by (cases "call_execute r cmd w2")
      have f2: "frame w1 w2" using frame_run_v2_composition [of w1 r a tp c] comp by simp
      have f3: "frame w2 w3" using frame_execute [of w2 r cmd] ex by simp
      have f: "frame w w3"
        by (rule frame_trans [OF frame_trans [OF f1 f2] f3])
      let ?w4 = "emit (Log ERROR (NonzeroExitCode c)) w3"
      have f': "frame w ?w4"
        by (rule frame_trans [OF f]) (simp add: frame_emit)
      show ?thesis
      proof (cases "code = 0")
        case True
        have "frame w (snd (compositions_loop r a cp g tp cs sf code w3))"
          by (rule frame_trans [OF f Cons.IH])
        then show ?thesis
          using False gen Inr comp ex True by simp
      next
        case nonzero: False
        have "frame w (snd (compositions_loop r a cp g tp cs True code ?w4))"
          by (rule frame_trans [OF f' Cons.IH])
        then show ?thesis
          using False gen Inr comp ex nonzero by simp
      qed
    qed
  qed
qed

lemma no_resolver_call_in_unit_events:
  "\<forall>e\<in>set evs. is_unit_event e \<Longrightarrow> filter is_resolver_call evs = []"
  by (induction evs) (auto elim: is_unit_event.elims)

lemma no_set_env_in_unit_events:
  "\<forall>e\<in>set evs. is_unit_event e \<Longrightarrow> filter is_set_env evs = []"
  by (induction evs) (auto elim: is_unit_event.elims)

text \<open>
  Claim C9 (per-unit injection frame). After \<open>run_v2_composition\<close> the key \<open>'terraform'\<close>
  holds a mapping with exactly the keys \<open>path\<close> (the terraform path followed by the
  composition name) and \<open>variables_file\<close> (\<open>variables.tfvars.json\<close>), and every key
  other than \<open>'terraform'\<close> and \<open>'cluster'\<close> has the value it had before; the same
  holds for these other keys after the whole loop of \<open>run_v2_compositions\<close>.
\<close>

theorem run_v2_composition_frame:
  "map_of (cluster_config (snd (run_v2_composition r a tp c w))) ''terraform'' =
     Some (VDict [(''path'', VStr (tp @ c)), (''variables_file'', VStr ''variables.tfvars.json'')]) \<and>
   (\<forall>k. k \<noteq> ''terraform'' \<and> k \<noteq> ''cluster'' \<longrightarrow>
      map_of (cluster_config (snd (run_v2_composition r a tp c w))) k = map_of (cluster_config w) k) \<and>
   (\<forall>k. k \<noteq> ''terraform'' \<and> k \<noteq> ''cluster'' \<longrightarrow>
      map_of (cluster_config (snd (run_v2_compositions r a cp g tp cs w))) k =
      map_of (cluster_config w) k)"
proof (intro conjI)
  show "map_of (cluster_config (snd (run_v2_composition r a tp c w))) ''terraform'' =
     Some (VDict [(''path'', VStr (tp @ c)), (''variables_file'', VStr ''variables.tfvars.json'')])"
    by (simp add: run_v2_composition_def inject_def Let_def update_conv')
  show "\<forall>k. k \<noteq> ''terraform'' \<and> k \<noteq> ''cluster'' \<longrightarrow>
      map_of (cluster_config (snd (run_v2_composition r a tp c w))) k = map_of (cluster_config w) k"
    by (simp add: run_v2_composition_def Let_def map_of_inject)
  show "\<forall>k. k \<noteq> ''terraform'' \<and> k \<noteq> ''cluster'' \<longrightarrow>
      map_of (cluster_config (snd (run_v2_compositions r a cp g tp cs w))) k =
      map_of (cluster_config w) k"
    using frame_loop [of w r a cp g tp cs False 0]
    unfolding frame_def run_v2_compositions_def by blast
qed

theorem run_v2_composition_frame_witness:
  "map_of (cluster_config (snd (run_v2_composition example_runner example_args ''t/'' ''network''
       example_world))) ''region'' = Some (VStr ''va6'') \<and>
   map_of (cluster_config (snd (run_v2_compositions example_runner example_args ''c/''
       example_generator ''t/'' [''network'', ''compute'', ''data''] example_world))) ''region'' =
     Some (VStr ''va6'')"
proof -
  have "''region'' \<noteq> ''terraform'' \<and> ''region'' \<noteq> ''cluster''"
    by simp
  moreover have "map_of (cluster_config example_world) ''region'' = Some (VStr ''va6'')"
    by (simp add: example_world_def)
  ultimately show ?thesis
    using run_v2_composition_frame [of example_runner example_args "''t/''" "''network''"
        example_world "''c/''" example_generator "[''network'', ''compute'', ''data'']"]
    by simp
qed

subsection \<open>\<open>run_v2_integration\<close>\<close>

text \<open>
  Claim C2 (empty-composition fatal stop). When the resolver returns no composition,
  \<open>run_v2_integration\<close> raises the failure "no compositions detected" instead of
  returning an exit status, and the state at that point differs from the initial one
  only by the logging set-up and the call of the resolver: no files have been
  generated and the executor has not been called.
\<close>

theorem run_v2_integration_no_compositions:
  assumes "composition_settings r = Inr g"
    and "get_sorted_compositions r g (path_join (cluster_config_path r) []) (''destroy'' = subcommand a) = []"
  shows "run_v2_integration r a w =
         (Inl (NoCompositionsDetected (path_join (cluster_config_path r) [])),
          w\<lparr>trace := trace w @
             [BasicConfig INFO,
              GetSortedCompositions (path_join (cluster_config_path r) []) (''destroy'' = subcommand a)]\<rparr>)"
  using assms by (simp add: run_v2_integration_def Let_def emit_def)

lemma example_settings: "composition_settings example_runner = Inr example_generator"
  by (simp add: composition_settings_def example_runner_def example_generator_def)

lemma example_config_path:
  "path_join (cluster_config_path example_runner) [] = ''data/env=dev/cluster=experiments/''"
  by (simp add: path_join_def example_runner_def)

theorem run_v2_integration_no_compositions_witness:
  "run_v2_integration (example_runner\<lparr>get_sorted_compositions := \<lambda>g p reverse. []\<rparr>)
     example_args example_world =
   (Inl (NoCompositionsDetected ''data/env=dev/cluster=experiments/''),
    example_world\<lparr>trace := trace example_world @
      [BasicConfig INFO, GetSortedCompositions ''data/env=dev/cluster=experiments/'' False]\<rparr>)"
proof -
  let ?r = "example_runner\<lparr>get_sorted_compositions := \<lambda>g p reverse. []\<rparr>"
  have s: "composition_settings ?r = Inr example_generator"
    using example_settings by (simp add: composition_settings_def)
  have p: "path_join (cluster_config_path ?r) [] = ''data/env=dev/cluster=experiments/''"
    using example_config_path by simp
  have e: "get_sorted_compositions ?r example_generator (path_join (cluster_config_path ?r) [])
      (''destroy'' = subcommand example_args) = []"
    by simp
  have d: "(''destroy'' = subcommand example_args) = False"
    by (simp add: example_args_def)
  show ?thesis
    using run_v2_integration_no_compositions [OF s e, of example_world]
    unfolding p d .
qed

lemma frame_run_v2_integration:
  assumes "composition_settings r = Inr g"
  shows "frame
    (w\<lparr>trace := trace w @ [BasicConfig INFO,
         GetSortedCompositions (path_join (cluster_config_path r) []) (''destroy'' = subcommand a)]\<rparr>)
    (snd (run_v2_integration r a w))"
proof -
  let ?w2 = "w\<lparr>trace := trace w @ [BasicConfig INFO,
         GetSortedCompositions (path_join (cluster_config_path r) []) (''destroy'' = subcommand a)]\<rparr>"
  have w2: "emit (GetSortedCompositions (path_join (cluster_config_path r) []) (''destroy'' = subcommand a))
      (emit (BasicConfig INFO) w) = ?w2"
    by (simp add: emit_def)
  show ?thesis
  proof (cases "get_sorted_compositions r g (path_join (cluster_config_path r) []) (''destroy'' = subcommand a) = []")
    case True
    then have "run_v2_integration r a w =
        (Inl (NoCompositionsDetected (path_join (cluster_config_path r) [])), ?w2)"
      using assms by (simp add: run_v2_integration_def Let_def emit_def)
    then show ?thesis
      by (simp add: frame_refl)
  next
    case False
    then have "snd (run_v2_integration r a w) =
      snd (compositions_loop r a (path_join (cluster_config_path r) []) g
        ((case terraform_path a of None \<Rightarrow> ''../ee-k8s-infra/'' | Some p \<Rightarrow> path_join p []) @
         ''compositions/terraform/'')
        (get_sorted_compositions r g (path_join (cluster_config_path r) []) (''destroy'' = subcommand a))
        False 0 ?w2)"
      using assms by (simp add: run_v2_integration_def Let_def run_v2_compositions_def w2)
    then show ?thesis
      by (simp add: frame_loop)
  qed
qed

text \<open>
  Claim C3 (destroy reversal). In multi-unit mode the resolver is called exactly once,
  and its \<open>reverse\<close> argument is true if and only if the subcommand is \<open>destroy\<close>; for
  every other subcommand it is false. This holds of the call that is recorded and of
  the call whose result is used: \<open>run_v2_integration\<close> fails on, or loops over, the list
  that the resolver returns for that value of \<open>reverse\<close>.
\<close>

theorem resolver_reverse_iff_destroy:
  assumes "composition_settings r = Inr g"
  shows "filter is_resolver_call (trace (snd (run_v2_integration r a w))) =
         filter is_resolver_call (trace w) @
         [GetSortedCompositions (path_join (cluster_config_path r) []) (subcommand a = ''destroy'')] \<and>
         run_v2_integration r a w =
           (let config_path = path_join (cluster_config_path r) [];
                compositions = get_sorted_compositions r g config_path (subcommand a = ''destroy'');
                w2 = w\<lparr>trace := trace w @
                       [BasicConfig INFO,
                        GetSortedCompositions config_path (subcommand a = ''destroy'')]\<rparr>
            in if compositions = []
               then (Inl (NoCompositionsDetected config_path), w2)
               else run_v2_compositions r a config_path g
                      ((case terraform_path a of
                          None \<Rightarrow> ''../ee-k8s-infra/''
                        | Some p \<Rightarrow> path_join p []) @ ''compositions/terraform/'')
                      compositions w2)"
proof
  let ?w2 = "w\<lparr>trace := trace w @ [BasicConfig INFO,
         GetSortedCompositions (path_join (cluster_config_path r) []) (''destroy'' = subcommand a)]\<rparr>"
  from frame_run_v2_integration [OF assms, of w a]
  obtain evs where "trace (snd (run_v2_integration r a w)) = trace ?w2 @ evs"
    "\<forall>e\<in>set evs. is_unit_event e"
    unfolding frame_def by blast
  then show "filter is_resolver_call (trace (snd (run_v2_integration r a w))) =
         filter is_resolver_call (trace w) @
         [GetSortedCompositions (path_join (cluster_config_path r) []) (subcommand a = ''destroy'')]"
    by (simp add: no_resolver_call_in_unit_events eq_commute [of "''destroy''"])
next
  show "run_v2_integration r a w =
           (let config_path = path_join (cluster_config_path r) [];
                compositions = get_sorted_compositions r g config_path (subcommand a = ''destroy'');
                w2 = w\<lparr>trace := trace w @
                       [BasicConfig INFO,
                        GetSortedCompositions config_path (subcommand a = ''destroy'')]\<rparr>
            in if compositions = []
               then (Inl (NoCompositionsDetected config_path), w2)
               else run_v2_compositions r a config_path g
                      ((case terraform_path a of
                          None \<Rightarrow> ''../ee-k8s-infra/''
                        | Some p \<Rightarrow> path_join p []) @ ''compositions/terraform/'')
                      compositions w2)"
    using assms
    by (simp add: run_v2_integration_def Let_def emit_def eq_commute [of "''destroy''"])
qed

lemma example_settings_zero:
  "composition_settings (example_runner\<lparr>execute := \<lambda>n cmd. 0\<rparr>) = Inr example_generator"
  using example_settings by (simp add: composition_settings_def)

lemma example_loop_destroy:
  "trace (snd (run_v2_compositions (example_runner\<lparr>execute := \<lambda>n cmd. 0\<rparr>)
      (example_args\<lparr>subcommand := ''destroy''\<rparr>) cp example_generator tp
      [''data'', ''compute'', ''network''] w)) =
   trace w @
   [Log INFO (RunningComposition ''data''), GenerateFiles cp tp ''data'', Execute ''terraform destroy'',
    Log INFO (RunningComposition ''compute''), GenerateFiles cp tp ''compute'', Execute ''terraform destroy'',
    Log INFO (RunningComposition ''network''), GenerateFiles cp tp ''network'', Execute ''terraform destroy'']"
  by (simp add: run_v2_compositions_def call_generate_files_def call_execute_def
      run_v2_composition_def run_composition_def Let_def emit_def
      example_runner_def example_args_def)

lemma example_loop_apply:
  "trace (snd (run_v2_compositions (example_runner\<lparr>execute := \<lambda>n cmd. 0\<rparr>)
      example_args cp example_generator tp [''network'', ''compute'', ''data''] w)) =
   trace w @
   [Log INFO (RunningComposition ''network''), GenerateFiles cp tp ''network'', Execute ''terraform apply'',
    Log INFO (RunningComposition ''compute''), GenerateFiles cp tp ''compute'', Execute ''terraform apply'',
    Log INFO (RunningComposition ''data''), GenerateFiles cp tp ''data'', Execute ''terraform apply'']"
  by (simp add: run_v2_compositions_def call_generate_files_def call_execute_def
      run_v2_composition_def run_composition_def Let_def emit_def
      example_runner_def example_args_def)

theorem resolver_reverse_iff_destroy_witness:
  "trace (snd (run_v2_integration (example_runner\<lparr>execute := \<lambda>n cmd. 0\<rparr>)
      (example_args\<lparr>subcommand := ''destroy''\<rparr>) example_world)) =
   [BasicConfig INFO,
    GetSortedCompositions ''data/env=dev/cluster=experiments/'' True,
    Log INFO (RunningComposition ''data''),
    GenerateFiles ''data/env=dev/cluster=experiments/'' ''../ee-k8s-infra/compositions/terraform/'' ''data'',
    Execute ''terraform destroy'',
    Log INFO (RunningComposition ''compute''),
    GenerateFiles ''data/env=dev/cluster=experiments/'' ''../ee-k8s-infra/compositions/terraform/'' ''compute'',
    Execute ''terraform destroy'',
    Log INFO (RunningComposition ''network''),
    GenerateFiles ''data/env=dev/cluster=experiments/'' ''../ee-k8s-infra/compositions/terraform/'' ''network'',
    Execute ''terraform destroy''] \<and>
   trace (snd (run_v2_integration (example_runner\<lparr>execute := \<lambda>n cmd. 0\<rparr>)
      example_args example_world)) =
   [BasicConfig INFO,
    GetSortedCompositions ''data/env=dev/cluster=experiments/'' False,
    Log INFO (RunningComposition ''network''),
    GenerateFiles ''data/env=dev/cluster=experiments/'' ''../ee-k8s-infra/compositions/terraform/'' ''network'',
    Execute ''terraform apply'',
    Log INFO (RunningComposition ''compute''),
    GenerateFiles ''data/env=dev/cluster=experiments/'' ''../ee-k8s-infra/compositions/terraform/'' ''compute'',
    Execute ''terraform apply'',
    Log INFO (RunningComposition ''data''),
    GenerateFiles ''data/env=dev/cluster=experiments/'' ''../ee-k8s-infra/compositions/terraform/'' ''data'',
    Execute ''terraform apply'']"
proof -
  let ?r = "example_runner\<lparr>execute := \<lambda>n cmd. 0\<rparr>"
  let ?d = "example_args\<lparr>subcommand := ''destroy''\<rparr>"
  have p: "path_join (cluster_config_path ?r) [] = ''data/env=dev/cluster=experiments/''"
    using example_config_path by simp
  have t: "trace example_world = []"
    by (simp add: example_world_def)
  have s: "subcommand ?d = ''destroy''" "subcommand example_args \<noteq> ''destroy''"
    "terraform_path ?d = None" "terraform_path example_args = None"
    by (simp_all add: example_args_def)
  have c: "\<And>p. get_sorted_compositions example_runner example_generator p True =
      [''data'', ''compute'', ''network'']"
    "\<And>p. get_sorted_compositions example_runner example_generator p False =
      [''network'', ''compute'', ''data'']"
    by (simp_all add: example_runner_def)
  have bwd: "run_v2_integration ?r ?d example_world =
      run_v2_compositions ?r ?d ''data/env=dev/cluster=experiments/'' example_generator
        ''../ee-k8s-infra/compositions/terraform/'' [''data'', ''compute'', ''network'']
        (example_world\<lparr>trace := trace example_world @
           [BasicConfig INFO, GetSortedCompositions ''data/env=dev/cluster=experiments/'' True]\<rparr>)"
    using resolver_reverse_iff_destroy [OF example_settings_zero, of ?d example_world]
    unfolding p by (simp add: s c Let_def)
  have fwd: "run_v2_integration ?r example_args example_world =
      run_v2_compositions ?r example_args ''data/env=dev/cluster=experiments/'' example_generator
        ''../ee-k8s-infra/compositions/terraform/'' [''network'', ''compute'', ''data'']
        (example_world\<lparr>trace := trace example_world @
           [BasicConfig INFO, GetSortedCompositions ''data/env=dev/cluster=experiments/'' False]\<rparr>)"
    using resolver_reverse_iff_destroy [OF example_settings_zero, of example_args example_world]
    unfolding p by (simp add: s c Let_def)
  show ?thesis
    unfolding bwd fwd example_loop_destroy example_loop_apply by (simp add: t)
qed

subsection \<open>The version gate\<close>

text \<open>
  Claim C4 (version gate). \<open>check_ops_version\<close> raises the version failure exactly when
  the cluster configuration has a \<open>terraform\<close> mapping with a key \<open>ops_min_version\<close>
  whose value, as a string, is strictly greater than the running version under the
  version comparison. It never changes the state, and it returns without failure
  when there is no \<open>terraform\<close> key or when the mapping has no \<open>ops_min_version\<close>.
\<close>

theorem check_ops_version_raises_iff:
  "((\<exists>x y. fst (check_ops_version r w) = Inl (VersionIncompatible x y)) \<longleftrightarrow>
      (\<exists>d v. map_of (cluster_config w) ''terraform'' = Some (VDict d) \<and>
             map_of d ''ops_min_version'' = Some v \<and>
             version_less r (ops_version r) (str_of r v))) \<and>
   snd (check_ops_version r w) = w \<and>
   (map_of (cluster_config w) ''terraform'' = None \<longrightarrow> check_ops_version r w = (Inr (), w)) \<and>
   (\<forall>d. map_of (cluster_config w) ''terraform'' = Some (VDict d) \<and> map_of d ''ops_min_version'' = None
        \<longrightarrow> check_ops_version r w = (Inr (), w))"
proof (intro conjI)
  show "(\<exists>x y. fst (check_ops_version r w) = Inl (VersionIncompatible x y)) \<longleftrightarrow>
      (\<exists>d v. map_of (cluster_config w) ''terraform'' = Some (VDict d) \<and>
             map_of d ''ops_min_version'' = Some v \<and>
             version_less r (ops_version r) (str_of r v))"
  proof (cases "map_of (cluster_config w) ''terraform''")
    case None
    then show ?thesis by (simp add: check_ops_version_def)
  next
    case sec: (Some tf)
    show ?thesis
    proof (cases tf)
      case (VDict d)
      show ?thesis
      proof (cases "map_of d ''ops_min_version''")
        case None
        then show ?thesis using sec VDict by (simp add: check_ops_version_def)
      next
        case (Some v)
        then show ?thesis
          using sec VDict by (simp add: check_ops_version_def validate_ops_version_def)
      qed
    qed (use sec in \<open>simp_all add: check_ops_version_def split: bool.splits\<close>)
  qed
  show "snd (check_ops_version r w) = w"
    by (simp add: check_ops_version_def split: option.splits sum.splits bool.splits)
  show "map_of (cluster_config w) ''terraform'' = None \<longrightarrow> check_ops_version r w = (Inr (), w)"
    by (simp add: check_ops_version_def)
  show "\<forall>d. map_of (cluster_config w) ''terraform'' = Some (VDict d) \<and> map_of d ''ops_min_version'' = None
        \<longrightarrow> check_ops_version r w = (Inr (), w)"
    by (simp add: check_ops_version_def)
qed

lemma dotted_less_examples:
  "dotted_less ''2.0.0'' ''2.1.0''" "\<not> dotted_less ''2.0.0'' ''1.9.0''" "\<not> dotted_less ''2.0.0'' ''2.0.0''"
  by (simp_all add: dotted_less_def decimal_def)

theorem check_ops_version_raises_iff_witness:
  "(\<exists>x y. fst (check_ops_version example_runner gated_world) = Inl (VersionIncompatible x y)) \<and>
   check_ops_version example_runner example_world = (Inr (), example_world) \<and>
   check_ops_version example_runner (example_world\<lparr>cluster_config := [(''terraform'', VDict [])]\<rparr>) =
     (Inr (), example_world\<lparr>cluster_config := [(''terraform'', VDict [])]\<rparr>)"
proof -
  have "map_of (cluster_config gated_world) ''terraform'' =
      Some (VDict [(''ops_min_version'', VStr ''2.1.0'')])"
    "map_of [(''ops_min_version'', VStr ''2.1.0'')] ''ops_min_version'' = Some (VStr ''2.1.0'')"
    "version_less example_runner (ops_version example_runner) (str_of example_runner (VStr ''2.1.0''))"
    by (simp_all add: gated_world_def example_runner_def dotted_less_examples)
  then have "\<exists>d v. map_of (cluster_config gated_world) ''terraform'' = Some (VDict d) \<and>
      map_of d ''ops_min_version'' = Some v \<and>
      version_less example_runner (ops_version example_runner) (str_of example_runner v)"
    by blast
  moreover have "map_of (cluster_config example_world) ''terraform'' = None"
    by (simp add: example_world_def)
  moreover have "map_of (cluster_config (example_world\<lparr>cluster_config := [(''terraform'', VDict [])]\<rparr>))
      ''terraform'' = Some (VDict []) \<and> map_of [] ''ops_min_version'' = (None :: val option)"
    by simp
  ultimately show ?thesis
    using check_ops_version_raises_iff [of example_runner gated_world]
      check_ops_version_raises_iff [of example_runner example_world]
      check_ops_version_raises_iff [of example_runner
        "example_world\<lparr>cluster_config := [(''terraform'', VDict [])]\<rparr>"]
    by blast
qed

subsection \<open>\<open>run\<close>\<close>

lemma check_ops_version_world: "snd (check_ops_version r w) = w"
  by (simp add: check_ops_version_def split: option.splits sum.splits bool.splits)

text \<open>
  Claim C5 (mode dispatch). Once the version gate has passed and the environment has
  been prepared, \<open>run\<close> is \<open>run_v2_integration\<close> when the configuration path is a
  directory and \<open>run_v1_integration\<close> when it is not (a single file), on the prepared
  state, and returns the result of that mode. When the gate fails, no mode is entered.
\<close>

theorem run_mode_dispatch:
  "(fst (check_ops_version r w) = Inr () \<and> isdir r (cluster_config_path r) \<longrightarrow>
      run r a w = (case run_v2_integration r a (prepare_environment r w) of
                     (res, w') \<Rightarrow> (map_sum id ReturnCode res, w'))) \<and>
   (fst (check_ops_version r w) = Inr () \<and> \<not> isdir r (cluster_config_path r) \<longrightarrow>
      run r a w = (case run_v1_integration r a (prepare_environment r w) of
                     (cmd, w') \<Rightarrow> (Inr (Command cmd), w'))) \<and>
   (\<forall>e. fst (check_ops_version r w) = Inl e \<longrightarrow> run r a w = (Inl e, w))"
proof -
  obtain res where c: "check_ops_version r w = (res, w)"
    using check_ops_version_world [of r w] by (cases "check_ops_version r w") simp
  show ?thesis
    by (cases res) (auto simp: run_def c Let_def split: prod.splits sum.splits)
qed

lemma example_gate: "fst (check_ops_version r example_world) = Inr ()"
  by (simp add: check_ops_version_def example_world_def)

theorem run_mode_dispatch_witness:
  "run example_runner example_args example_world =
     (case run_v2_integration example_runner example_args
             (prepare_environment example_runner example_world) of
        (res, w') \<Rightarrow> (map_sum id ReturnCode res, w')) \<and>
   run (example_runner\<lparr>isdir := \<lambda>p. False\<rparr>) example_args example_world =
     (case run_v1_integration (example_runner\<lparr>isdir := \<lambda>p. False\<rparr>) example_args
             (prepare_environment (example_runner\<lparr>isdir := \<lambda>p. False\<rparr>) example_world) of
        (cmd, w') \<Rightarrow> (Inr (Command cmd), w')) \<and>
   run example_runner example_args gated_world =
     (Inl (VersionIncompatible ''2.0.0'' ''2.1.0''), gated_world)"
proof -
  have d: "isdir example_runner (cluster_config_path example_runner)"
    "\<not> isdir (example_runner\<lparr>isdir := \<lambda>p. False\<rparr>)
        (cluster_config_path (example_runner\<lparr>isdir := \<lambda>p. False\<rparr>))"
    by (simp_all add: example_runner_def)
  have g: "fst (check_ops_version example_runner gated_world) =
      Inl (VersionIncompatible ''2.0.0'' ''2.1.0'')"
    by (simp add: check_ops_version_def gated_world_def validate_ops_version_def
        example_runner_def dotted_less_examples)
  show ?thesis
    using run_mode_dispatch [of example_runner example_world example_args]
      run_mode_dispatch [of "example_runner\<lparr>isdir := \<lambda>p. False\<rparr>" example_world example_args]
      run_mode_dispatch [of example_runner gated_world example_args]
      d g example_gate
    by blast
qed

lemma prepare_environment_fields:
  "environ (prepare_environment r w) =
     AList.update ''TF_CLI_CONFIG_FILE'' (resolved_config_file r w) (environ w)"
  "trace (prepare_environment r w) =
     trace w @ [SetEnv ''TF_CLI_CONFIG_FILE'' (resolved_config_file r w),
                Log INFO (SetConfigFile (resolved_config_file r w))]"
  by (simp_all add: prepare_environment_def resolved_config_file_def Let_def emit_def)

lemma run_modes_after_preparation:
  assumes "fst (check_ops_version r w) = Inr ()"
  shows "environ (snd (run r a w)) = environ (prepare_environment r w) \<and>
         (\<exists>evs. trace (snd (run r a w)) = trace (prepare_environment r w) @ evs \<and>
                filter is_set_env evs = [])"
proof -
  let ?w1 = "prepare_environment r w"
  have c: "check_ops_version r w = (Inr (), w)"
    using assms check_ops_version_world [of r w] by (cases "check_ops_version r w") simp
  show ?thesis
  proof (cases "isdir r (cluster_config_path r)")
    case False
    then show ?thesis
      by (simp add: run_def c Let_def run_v1_integration_def)
  next
    case True
    then have w': "snd (run r a w) = snd (run_v2_integration r a ?w1)"
      by (simp add: run_def c Let_def split: prod.splits sum.splits)
    show ?thesis
    proof (cases "composition_settings r")
      case (Inl e)
      then have "snd (run_v2_integration r a ?w1) = emit (BasicConfig INFO) ?w1"
        by (simp add: run_v2_integration_def Let_def)
      then show ?thesis
        by (simp add: w' emit_def)
    next
      case (Inr g)
      let ?evs0 = "[BasicConfig INFO,
         GetSortedCompositions (path_join (cluster_config_path r) []) (''destroy'' = subcommand a)]"
      from frame_run_v2_integration [OF Inr, of ?w1 a]
      obtain evs where "environ (snd (run_v2_integration r a ?w1)) = environ ?w1"
        "trace (snd (run_v2_integration r a ?w1)) = trace ?w1 @ ?evs0 @ evs"
        "\<forall>e\<in>set evs. is_unit_event e"
        unfolding frame_def by auto
      then have "environ (snd (run r a w)) = environ ?w1"
        "trace (snd (run r a w)) = trace ?w1 @ (?evs0 @ evs)"
        "filter is_set_env (?evs0 @ evs) = []"
        by (simp_all add: w' no_set_env_in_unit_events)
      then show ?thesis by blast
    qed
  qed
qed

text \<open>
  Claim C6 (environment preparation). When the version gate passes, the value of
  \<open>TF_CLI_CONFIG_FILE\<close> after \<open>run\<close> is the value it had before when it was set, and
  the configured default path otherwise. The variable is set once: setting it and
  logging it are the first two events of the run, before the events of either mode,
  and no later event sets it. When the variable was already set, the environment
  after the run is the environment before it.
\<close>

theorem run_prepares_environment:
  assumes "fst (check_ops_version r w) = Inr ()"
  shows "map_of (environ (snd (run r a w))) ''TF_CLI_CONFIG_FILE'' = Some (resolved_config_file r w) \<and>
         (\<exists>evs. trace (snd (run r a w)) =
                  trace w @ [SetEnv ''TF_CLI_CONFIG_FILE'' (resolved_config_file r w),
                             Log INFO (SetConfigFile (resolved_config_file r w))] @ evs \<and>
                filter is_set_env evs = []) \<and>
         (\<forall>v. map_of (environ w) ''TF_CLI_CONFIG_FILE'' = Some v \<longrightarrow>
              environ (snd (run r a w)) = environ w)"
proof -
  from run_modes_after_preparation [OF assms, of a]
  obtain evs where e: "environ (snd (run r a w)) = environ (prepare_environment r w)"
    and t: "trace (snd (run r a w)) = trace (prepare_environment r w) @ evs"
    and n: "filter is_set_env evs = []"
    by blast
  have 1: "map_of (environ (snd (run r a w))) ''TF_CLI_CONFIG_FILE'' = Some (resolved_config_file r w)"
    by (simp add: e prepare_environment_fields update_conv')
  have 2: "\<exists>evs. trace (snd (run r a w)) =
                  trace w @ [SetEnv ''TF_CLI_CONFIG_FILE'' (resolved_config_file r w),
                             Log INFO (SetConfigFile (resolved_config_file r w))] @ evs \<and>
                filter is_set_env evs = []"
    using t n by (simp add: prepare_environment_fields)
  have 3: "\<forall>v. map_of (environ w) ''TF_CLI_CONFIG_FILE'' = Some v \<longrightarrow>
              environ (snd (run r a w)) = environ w"
    by (simp add: e prepare_environment_fields resolved_config_file_def update_triv)
  show ?thesis using 1 2 3 by blast
qed

theorem run_prepares_environment_witness:
  "map_of (environ (snd (run example_runner example_args example_world))) ''TF_CLI_CONFIG_FILE'' =
     Some ''/home/ops/terraformrc'' \<and>
   environ (snd (run example_runner example_args example_world)) = environ example_world \<and>
   map_of (environ (snd (run example_runner example_args (example_world\<lparr>environ := []\<rparr>))))
     ''TF_CLI_CONFIG_FILE'' = Some ''/etc/terraformrc''"
proof -
  have set: "map_of (environ example_world) ''TF_CLI_CONFIG_FILE'' = Some ''/home/ops/terraformrc''"
    by (simp add: example_world_def)
  then have r1: "resolved_config_file example_runner example_world = ''/home/ops/terraformrc''"
    by (simp add: resolved_config_file_def)
  have r2: "resolved_config_file example_runner (example_world\<lparr>environ := []\<rparr>) = ''/etc/terraformrc''"
    by (simp add: resolved_config_file_def example_runner_def)
  have g2: "fst (check_ops_version example_runner (example_world\<lparr>environ := []\<rparr>)) = Inr ()"
    by (simp add: check_ops_version_def example_world_def)
  show ?thesis
    using run_prepares_environment [OF example_gate, of example_runner example_args]
      run_prepares_environment [OF g2, of example_args] set
    by (simp add: r1 r2)
qed

subsection \<open>The cluster identity\<close>

lemma length_le_bytes: "length (le_bytes n w) = n"
  by (induction n arbitrary: w) simp_all

lemma length_md5_digest: "length (md5_digest msg) = 16"
  by (simp add: md5_digest_def Let_def length_le_bytes split: prod.splits)

lemma length_hex_bytes: "length (concat (map hex_byte bs)) = 2 * length bs"
  by (induction bs) (simp_all add: hex_byte_def)

lemma length_md5_hexdigest: "length (md5_hexdigest s) = 32"
  by (simp add: md5_hexdigest_def length_hex_bytes length_md5_digest)

lemma hex_digit_range: "hex_digit n \<in> set ''0123456789abcdef''"
proof -
  have "n mod 16 < length ''0123456789abcdef''" by simp
  then show ?thesis unfolding hex_digit_def by (rule nth_mem)
qed

lemma md5_hexdigest_range: "set (md5_hexdigest s) \<subseteq> set ''0123456789abcdef''"
  using hex_digit_range by (auto simp: md5_hexdigest_def hex_byte_def)

text \<open>A test vector of RFC 1321, and the identity of the example.\<close>

lemma md5_hexdigest_abc: "md5_hexdigest ''abc'' = ''900150983cd24fb0d6963f7d28e17f72''"
  by code_simp

lemma example_identities:
  "take 6 (md5_hexdigest ''data/env=dev/cluster=experiments'') = ''bd08bc''"
  "take 6 (md5_hexdigest ''data/env=dev/cluster=production'') = ''990099''"
  "take 6 (md5_hexdigest ''data/env=prod/cluster=experiments'') = ''7231c6''"
  by code_simp+

lemma example_cluster_id: "cluster_id example_runner = ''bd08bc''"
  using example_identities(1) by (simp add: cluster_id_def example_runner_def)

lemma distinct_example_identities:
  assumes "p \<in> set example_paths" and "q \<in> set example_paths" and "p \<noteq> q"
  shows "take 6 (md5_hexdigest p) \<noteq> take 6 (md5_hexdigest q)"
proof -
  have "p = ''data/env=dev/cluster=experiments'' \<or> p = ''data/env=dev/cluster=production'' \<or>
      p = ''data/env=prod/cluster=experiments''"
    "q = ''data/env=dev/cluster=experiments'' \<or> q = ''data/env=dev/cluster=production'' \<or>
      q = ''data/env=prod/cluster=experiments''"
    using assms(1,2) by (simp_all add: example_paths_def)
  then show ?thesis
    using assms(3) by (elim disjE) (simp_all only: example_identities, simp_all)
qed

text \<open>The identity has 24 bits, so it cannot separate all paths.\<close>

lemma cluster_identity_collisions_exist:
  "\<exists>p q. p \<noteq> q \<and> take 6 (md5_hexdigest p) = take 6 (md5_hexdigest q)"
proof -
  let ?f = "\<lambda>p. take 6 (md5_hexdigest p)"
  have "range ?f \<subseteq> {xs. set xs \<subseteq> set ''0123456789abcdef'' \<and> length xs = 6}"
    using md5_hexdigest_range set_take_subset by (fastforce simp: length_md5_hexdigest)
  moreover have "finite {xs. set xs \<subseteq> set ''0123456789abcdef'' \<and> length xs = 6}"
    by (rule finite_lists_length_eq) simp
  ultimately have "finite (range ?f)"
    by (rule finite_subset)
  moreover have "infinite (UNIV :: string set)"
    by (rule infinite_UNIV_listI)
  ultimately have "\<not> inj ?f"
    using finite_imageD by blast
  then show ?thesis
    unfolding inj_def by blast
qed

lemma cluster_after_run_v2_composition:
  "map_of (cluster_config (snd (run_v2_composition r a tp c w))) ''cluster'' =
     Some (VStr (''auto_generated_'' @ cluster_id r))"
  by (simp add: run_v2_composition_def inject_def Let_def update_conv')

text \<open>
  Claim C7 (identity determinism). The identity is the first 6 characters of the
  hexadecimal MD5 digest of the configuration path: 6 hexadecimal digits, a function
  of the path alone. Two calls of \<open>run_v2_composition\<close> on runners with the same
  configuration path store the same value under \<open>'cluster'\<close>, whatever the arguments,
  the unit and the state, and on runners with two different paths among the example
  paths they store different values. (Different paths cannot always give different
  identities, by the preceding lemma; how often they do is a statement about
  probabilities, which this theorem covers at the example paths only.)
\<close>

theorem cluster_identity_deterministic:
  "length (cluster_id r) = 6 \<and>
   set (cluster_id r) \<subseteq> set ''0123456789abcdef'' \<and>
   cluster_id r = take 6 (md5_hexdigest (cluster_config_path r)) \<and>
   (cluster_config_path r = cluster_config_path r' \<longrightarrow>
      map_of (cluster_config (snd (run_v2_composition r a tp c w))) ''cluster'' =
      map_of (cluster_config (snd (run_v2_composition r' a' tp' c' w'))) ''cluster'') \<and>
   (cluster_config_path r \<in> set example_paths \<and> cluster_config_path r' \<in> set example_paths \<and>
    cluster_config_path r \<noteq> cluster_config_path r' \<longrightarrow>
      map_of (cluster_config (snd (run_v2_composition r a tp c w))) ''cluster'' \<noteq>
      map_of (cluster_config (snd (run_v2_composition r' a' tp' c' w'))) ''cluster'')"
proof (intro conjI impI)
  show "length (cluster_id r) = 6"
    by (simp add: cluster_id_def length_md5_hexdigest)
  show "set (cluster_id r) \<subseteq> set ''0123456789abcdef''"
    unfolding cluster_id_def using md5_hexdigest_range set_take_subset by fast
  show "cluster_id r = take 6 (md5_hexdigest (cluster_config_path r))"
    by (simp add: cluster_id_def)
next
  assume "cluster_config_path r = cluster_config_path r'"
  then have "cluster_id r = cluster_id r'"
    by (simp add: cluster_id_def)
  then show "map_of (cluster_config (snd (run_v2_composition r a tp c w))) ''cluster'' =
      map_of (cluster_config (snd (run_v2_composition r' a' tp' c' w'))) ''cluster''"
    by (simp add: cluster_after_run_v2_composition)
next
  assume "cluster_config_path r \<in> set example_paths \<and> cluster_config_path r' \<in> set example_paths \<and>
    cluster_config_path r \<noteq> cluster_config_path r'"
  then have "cluster_id r \<noteq> cluster_id r'"
    unfolding cluster_id_def by (intro distinct_example_identities) simp_all
  then show "map_of (cluster_config (snd (run_v2_composition r a tp c w))) ''cluster'' \<noteq>
      map_of (cluster_config (snd (run_v2_composition r' a' tp' c' w'))) ''cluster''"
    by (simp add: cluster_after_run_v2_composition)
qed

theorem cluster_identity_deterministic_witness:
  "map_of (cluster_config (snd (run_v2_composition example_runner example_args ''t/'' ''network''
       example_world))) ''cluster'' =
   map_of (cluster_config (snd (run_v2_composition (example_runner\<lparr>root_dir := ''/srv''\<rparr>)
       (example_args\<lparr>subcommand := ''destroy''\<rparr>) ''u/'' ''data'' gated_world))) ''cluster'' \<and>
   map_of (cluster_config (snd (run_v2_composition example_runner example_args ''t/'' ''network''
       example_world))) ''cluster'' \<noteq>
   map_of (cluster_config (snd (run_v2_composition
       (example_runner\<lparr>cluster_config_path := ''data/env=dev/cluster=production''\<rparr>)
       example_args ''t/'' ''network'' example_world))) ''cluster''"
proof -
  let ?r = "example_runner\<lparr>cluster_config_path := ''data/env=dev/cluster=production''\<rparr>"
  have p: "cluster_config_path example_runner = ''data/env=dev/cluster=experiments''"
    by (simp add: example_runner_def)
  have "cluster_config_path example_runner \<in> set example_paths \<and>
      cluster_config_path ?r \<in> set example_paths \<and>
      cluster_config_path example_runner \<noteq> cluster_config_path ?r"
    by (simp add: p example_paths_def)
  then show ?thesis
    using cluster_identity_deterministic [of example_runner "example_runner\<lparr>root_dir := ''/srv''\<rparr>"
        example_args "''t/''" "''network''" example_world
        "example_args\<lparr>subcommand := ''destroy''\<rparr>" "''u/''" "''data''" gated_world]
      cluster_identity_deterministic [of example_runner ?r
        example_args "''t/''" "''network''" example_world
        example_args "''t/''" "''network''" example_world]
    by simp
qed

text \<open>
  Claim C10 (constant identity across a run). For every composition, every terraform
  path and every state in which \<open>run_v2_composition\<close> is called, the value stored under
  \<open>'cluster'\<close> is the string \<open>auto_generated_\<close> followed by the first 6 hexadecimal
  characters of the MD5 digest of the cluster configuration path.
\<close>

theorem cluster_identity_constant:
  "map_of (cluster_config (snd (run_v2_composition r a tp c w))) ''cluster'' =
     Some (VStr (''auto_generated_'' @ take 6 (md5_hexdigest (cluster_config_path r))))"
  using cluster_after_run_v2_composition [of r a tp c w] by (simp add: cluster_id_def)

theorem cluster_identity_constant_witness:
  "map_of (cluster_config (snd (run_v2_composition example_runner example_args ''t/'' ''network''
       example_world))) ''cluster'' = Some (VStr ''auto_generated_bd08bc'') \<and>
   map_of (cluster_config (snd (run_v2_composition example_runner example_args ''t/'' ''data''
       (snd (run_v2_composition example_runner example_args ''t/'' ''network'' example_world)))))
     ''cluster'' = Some (VStr ''auto_generated_bd08bc'')"
proof -
  have "take 6 (md5_hexdigest (cluster_config_path example_runner)) = ''bd08bc''"
    using example_cluster_id by (simp add: cluster_id_def)
  then show ?thesis
    using cluster_identity_constant [of example_runner example_args "''t/''" "''network''" example_world]
      cluster_identity_constant [of example_runner example_args "''t/''" "''data''"
        "snd (run_v2_composition example_runner example_args ''t/'' ''network'' example_world)"]
    by simp
qed

subsection \<open>A failure of \<open>generate_files\<close>\<close>

text \<open>
  Claim C8 (rendering failure), as amended. When \<open>generate_files\<close> raises for the unit
  at position \<open>k\<close> (the units before it having been processed with status 0), the
  exception leaves \<open>run_v2_compositions\<close>: the result is the raised failure and not an
  exit status, the last events are the start notice of unit \<open>k\<close> and the call of
  \<open>generate_files\<close> for it, the executor has been called for the \<open>k\<close> earlier units only,
  and there is no event for any later unit, so no skip notice either.
\<close>

theorem generate_files_failure_propagates:
  assumes k: "k < length cs"
    and before: "\<forall>i<k. generation_ok r g cp tp w cs i \<and> unit_status r a tp w cs i = 0"
    and raises: "generate_files r (generations w + k) g cp tp (cs ! k) = Some msg"
  shows "fst (run_v2_compositions r a cp g tp cs w) = Inl (CollaboratorFailure msg) \<and>
         trace (snd (run_v2_compositions r a cp g tp cs w)) =
           trace w @ processed r a cp tp w (take k cs) @
           [Log INFO (RunningComposition (cs ! k)), GenerateFiles cp tp (cs ! k)] \<and>
         executions (snd (run_v2_compositions r a cp g tp cs w)) = executions w + k"
proof -
  let ?pre = "take k cs" and ?c = "cs ! k" and ?post = "drop (Suc k) cs"
  let ?w = "foldl (after_unit r a cp tp) w ?pre"
  have split: "cs = ?pre @ ?c # ?post"
    using k by (simp add: id_take_nth_drop)
  have len: "length ?pre = k"
    using k by simp
  have "\<forall>i<length ?pre. generation_ok r g cp tp w cs i \<and> unit_status r a tp w cs i = 0"
    using before len by simp
  then have pre: "\<forall>i<length ?pre. generation_ok r g cp tp w (?pre @ ?c # ?post) i \<and>
      unit_status r a tp w (?pre @ ?c # ?post) i = 0"
    using split by simp
  have step1: "compositions_loop r a cp g tp cs False 0 w =
      compositions_loop r a cp g tp (?c # ?post) False (if ?pre = [] then 0 else 0) ?w"
    using loop_prefix_ok [OF pre, of 0] split by simp
  have g: "generate_files r (generations ?w) g cp tp ?c = Some msg"
    using raises len by (simp add: after_units_fields)
  have "run_v2_compositions r a cp g tp cs w =
      (Inl (CollaboratorFailure msg),
       ?w\<lparr>trace := trace ?w @ [Log INFO (RunningComposition ?c), GenerateFiles cp tp ?c],
          generations := Suc (generations ?w)\<rparr>)"
    unfolding run_v2_compositions_def step1 by (rule loop_unit_raises [OF g])
  then show ?thesis
    using len by (simp add: after_units_trace after_units_fields)
qed

theorem generate_files_failure_propagates_witness:
  "fst (run_v2_compositions (example_runner\<lparr>generate_files :=
            \<lambda>n g p q c. if n = 1 then Some ''template error'' else None\<rparr>)
          example_args ''c/'' example_generator ''t/'' [''network'', ''compute'', ''data'']
          example_world) = Inl (CollaboratorFailure ''template error'') \<and>
   executions (snd (run_v2_compositions (example_runner\<lparr>generate_files :=
            \<lambda>n g p q c. if n = 1 then Some ''template error'' else None\<rparr>)
          example_args ''c/'' example_generator ''t/'' [''network'', ''compute'', ''data'']
          example_world)) = 1"
proof -
  let ?r = "example_runner\<lparr>generate_files :=
            \<lambda>n g p q c. if n = 1 then Some ''template error'' else None\<rparr>"
  let ?cs = "[''network'', ''compute'', ''data'']"
  have w: "generations example_world = 0" "executions example_world = 0"
    by (simp_all add: example_world_def)
  have k: "1 < length ?cs"
    by simp
  have before: "\<forall>i<1. generation_ok ?r example_generator ''c/'' ''t/'' example_world ?cs i \<and>
      unit_status ?r example_args ''t/'' example_world ?cs i = 0"
    by (simp add: generation_ok_def unit_status_def w example_runner_def)
  have raises: "generate_files ?r (generations example_world + 1) example_generator ''c/'' ''t/''
      (?cs ! 1) = Some ''template error''"
    by (simp add: w)
  show ?thesis
    using generate_files_failure_propagates [OF k before raises]
    by (simp add: w)
qed

theorem generate_files_failure_counterexample:
  "fst (run_v2_compositions failing_runner example_args ''c/'' example_generator ''t/''
          [''network'', ''compute''] example_world) = Inl (CollaboratorFailure ''template error'') \<and>
   trace (snd (run_v2_compositions failing_runner example_args ''c/'' example_generator ''t/''
          [''network'', ''compute''] example_world)) =
     [Log INFO (RunningComposition ''network''), GenerateFiles ''c/'' ''t/'' ''network''] \<and>
   fst (run_v2_compositions (example_runner\<lparr>execute := \<lambda>n cmd. 1\<rparr>) example_args ''c/''
          example_generator ''t/'' [''network'', ''compute''] example_world) = Inr 1 \<and>
   trace (snd (run_v2_compositions (example_runner\<lparr>execute := \<lambda>n cmd. 1\<rparr>) example_args ''c/''
          example_generator ''t/'' [''network'', ''compute''] example_world)) =
     [Log INFO (RunningComposition ''network''), GenerateFiles ''c/'' ''t/'' ''network'',
      Execute ''terraform apply'', Log ERROR (NonzeroExitCode ''network''),
      Log INFO (SkippingComposition ''apply'' ''compute'')]"
  by (simp add: run_v2_compositions_def call_generate_files_def call_execute_def
      run_v2_composition_def run_composition_def Let_def emit_def
      failing_runner_def example_runner_def example_world_def example_args_def)

end
